theory Spec2Isabelle
  imports Complex_Main "HOL-Library.Log_Nat"
begin

section \<open>GetXPosure: the matching engine of \<open>location_matching.py\<close>\<close>

text \<open>
  The development embeds the two functions of \<open>src/GetXPosure/location_matching.py\<close>,
  \<open>EDM\<close> and \<open>show_matches\<close>. Both work on numpy arrays of dtype float64, so the first
  part models the float64 operations they call; the second part is the data the
  functions read (the two GeoDataFrames) and the text they print; the third part is the
  code itself.
\<close>

subsection \<open>float64 arithmetic as numpy performs it\<close>

text \<open>
  A float64 operation returns the exact real result rounded to the nearest number with a
  53-bit significand, ties to the even significand (IEEE 754 binary64, the only rounding
  mode numpy uses). \<open>expo x\<close> is the binary exponent of \<open>x\<close>, that is
  \<open>2 ^ expo x \<le> \<bar>x\<bar> < 2 ^ (expo x + 1)\<close>, and \<open>fl x\<close> rounds \<open>x\<close> to a multiple of
  \<open>2 ^ (expo x - 52)\<close>. \<open>rint\<close> is \<open>np.rint\<close>: the nearest integer, ties to even.
  The exponent range is not bounded in this model: overflow to infinity and underflow are
  left out, and a value is either a real number or NaN.
\<close>

definition rint :: "real \<Rightarrow> int" where
  "rint x = (let f = \<lfloor>x\<rfloor>; d = x - of_int f
     in if d < 1/2 then f else if 1/2 < d then f + 1 else if even f then f else f + 1)"

definition expo :: "real \<Rightarrow> int" where
  "expo x = (if 1 \<le> \<bar>x\<bar> then bitlen \<lfloor>\<bar>x\<bar>\<rfloor> - 1 else - bitlen (\<lceil>1 / \<bar>x\<bar>\<rceil> - 1))"

definition fl :: "real \<Rightarrow> real" where
  "fl x = (if x = 0 then 0
     else of_int (rint (x / 2 powi (expo x - 52))) * 2 powi (expo x - 52))"

datatype f64 = Num real | NaN

fun fadd :: "f64 \<Rightarrow> f64 \<Rightarrow> f64" where
  "fadd (Num a) (Num b) = Num (fl (a + b))"
| "fadd _ _ = NaN"

fun fsub :: "f64 \<Rightarrow> f64 \<Rightarrow> f64" where
  "fsub (Num a) (Num b) = Num (fl (a - b))"
| "fsub _ _ = NaN"

fun fmul :: "f64 \<Rightarrow> f64 \<Rightarrow> f64" where
  "fmul (Num a) (Num b) = Num (fl (a * b))"
| "fmul _ _ = NaN"

text \<open>\<open>np.sqrt\<close> of a negative number is NaN (numpy warns and goes on).\<close>

fun fsqrt :: "f64 \<Rightarrow> f64" where
  "fsqrt (Num a) = (if a < 0 then NaN else Num (fl (sqrt a)))"
| "fsqrt NaN = NaN"

text \<open>Comparisons: every comparison with NaN is false.\<close>

fun flt :: "f64 \<Rightarrow> f64 \<Rightarrow> bool" where
  "flt (Num a) (Num b) = (a < b)"
| "flt _ _ = False"

fun fgt :: "f64 \<Rightarrow> f64 \<Rightarrow> bool" where
  "fgt (Num a) (Num b) = (b < a)"
| "fgt _ _ = False"

text \<open>
  \<open>np.round(a, decimals)\<close> on float64 multiplies by \<open>10 ** decimals\<close>, applies
  \<open>np.rint\<close> and divides by \<open>10 ** decimals\<close>, each step a float64 operation.
\<close>

fun np_round :: "f64 \<Rightarrow> nat \<Rightarrow> f64" where
  "np_round (Num a) decimals =
     Num (fl (of_int (rint (fl (a * 10 ^ decimals))) / 10 ^ decimals))"
| "np_round NaN decimals = NaN"

subsection \<open>The data: two GeoDataFrames and the printed text\<close>

text \<open>
  A GeoDataFrame is the list of its rows. A row of \<open>gpx_gdf\<close> has the columns that
  \<open>parse_gpx\<close> creates and \<open>show_matches\<close> reads; a row of \<open>exp_gdf\<close> has the columns
  of the exposure table that \<open>get_exposure_locations\<close> returns and \<open>show_matches\<close>
  reads. \<open>geometry\<close> is a shapely point of two coordinates (\<open>points_from_xy\<close>,
  \<open>Point(row.X,row.Y)\<close>) in the projected system (metres); the datetime columns are only
  formatted and printed, and are carried as text.
\<close>

type_synonym point = "f64 \<times> f64"

record geo_row =
  geometry :: point

record gpx_row = geo_row +
  time :: string
  latitude :: f64
  longitude :: f64
  time_epoch :: f64

record exp_row = geo_row +
  USER_SiteName :: string
  USER_Contact :: string
  USER_Date :: string
  arrival_dt :: string
  departure_dt :: string
  X :: f64
  Y :: f64
  arrival_epoch :: f64
  departure_epoch :: f64

text \<open>
  What \<open>show_matches\<close> prints: the heading \<open>EXPOSURE(S) FOUND!\<close>, for each reported
  site the three lines built from \<open>minimum_distance\<close>, \<open>my_point\<close> and
  \<open>exposure_location\<close> (one \<open>Match\<close>), or \<open>All good - no potential exposures found\<close>.
\<close>

datatype report_line =
  ExposuresFound
| Match f64 gpx_row exp_row
| AllGood

text \<open>
  The state a call of \<open>show_matches\<close> can touch: the two frames it is handed (Python
  passes them by reference) and the standard output. \<open>blas\<close> is the way the BLAS library
  of the installation evaluates a cell of a matrix product (see \<open>dot\<close> below).
\<close>

datatype blas_kernel = Rounded | Fused

record world =
  gpx_gdf :: "gpx_row list"
  exp_gdf :: "exp_row list"
  stdout :: "report_line list"
  blas :: blas_kernel

datatype error = ValueError | IndexError

definition print :: "report_line \<Rightarrow> world \<Rightarrow> world" where
  "print l w = w\<lparr>stdout := stdout w @ [l]\<rparr>"

text \<open>The text printed between two states.\<close>

definition printed :: "world \<Rightarrow> world \<Rightarrow> report_line list" where
  "printed w w' = drop (length (stdout w)) (stdout w')"

subsection \<open>\<open>EDM\<close>\<close>

text \<open>
  \<^verbatim>\<open>p1 = np.sum(A**2, axis=1)[:,np.newaxis]\<close>, \<^verbatim>\<open>p2 = np.sum(B**2, axis=1)\<close>,
  \<^verbatim>\<open>p3 = -2 * np.dot(A,B.T)\<close>, \<^verbatim>\<open>return np.round(np.sqrt(p1+p2+p3),2)\<close>.
  \<open>sum_squares\<close> is one row of \<open>np.sum(A**2, axis=1)\<close> and \<open>dot\<close> one cell of
  \<open>np.dot(A,B.T)\<close>. The broadcast sum \<open>p1+p2+p3\<close> associates to the left. \<open>EDM\<close> takes
  the kernel of the BLAS library as its first argument.
\<close>

definition sum_squares :: "point \<Rightarrow> f64" where
  "sum_squares a = fadd (fmul (fst a) (fst a)) (fmul (snd a) (snd a))"

text \<open>
  \<open>np.dot\<close> hands the product to the BLAS library numpy is linked with. The source does
  not fix how that library evaluates a cell \<open>a\<^sub>0 b\<^sub>0 + a\<^sub>1 b\<^sub>1\<close>: it rounds both products
  and then their sum, or, with fused multiply-add instructions, it rounds the first
  product and then \<open>a\<^sub>1 b\<^sub>1\<close> plus that product in one step. The kernel is part of the
  environment of a call.
\<close>

fun fma :: "f64 \<Rightarrow> f64 \<Rightarrow> f64 \<Rightarrow> f64" where
  "fma (Num a) (Num b) (Num c) = Num (fl (a * b + c))"
| "fma _ _ _ = NaN"

fun dot :: "blas_kernel \<Rightarrow> point \<Rightarrow> point \<Rightarrow> f64" where
  "dot Rounded a b = fadd (fmul (fst a) (fst b)) (fmul (snd a) (snd b))"
| "dot Fused a b = fma (snd a) (snd b) (fmul (fst a) (fst b))"

definition EDM :: "blas_kernel \<Rightarrow> point list \<Rightarrow> point list \<Rightarrow> f64 list list" where
  "EDM kern A B =
     (let p1 = map sum_squares A;
          p2 = map sum_squares B;
          p3 = map (\<lambda>a. map (\<lambda>b. fmul (Num (- 2)) (dot kern a b)) B) A
      in map2 (\<lambda>s row. map2 (\<lambda>t c. np_round (fsqrt (fadd (fadd s t) c)) 2) p2 row) p1 p3)"

subsection \<open>\<open>show_matches\<close>\<close>

text \<open>\<open>np.vstack\<close> of an empty sequence raises \<open>ValueError\<close> (need at least one array).\<close>

definition vstack :: "point list \<Rightarrow> error + point list" where
  "vstack tup = (if tup = [] then Inl ValueError else Inr tup)"

text \<open>\<^verbatim>\<open>xs[None, :] - presence[:, None]\<close>: one row per track point, one column per site.\<close>

definition outer_sub :: "f64 list \<Rightarrow> f64 list \<Rightarrow> f64 list list" where
  "outer_sub xs presence = map (\<lambda>t. map (\<lambda>x. fsub x t) xs) presence"

text \<open>The element-wise comparisons and \<open>&\<close> of the query.\<close>

definition mat_lt :: "f64 list list \<Rightarrow> f64 \<Rightarrow> bool list list" where
  "mat_lt M v = map (map (\<lambda>x. flt x v)) M"

definition mat_gt :: "f64 list list \<Rightarrow> f64 \<Rightarrow> bool list list" where
  "mat_gt M v = map (map (\<lambda>x. fgt x v)) M"

definition mat_and :: "bool list list \<Rightarrow> bool list list \<Rightarrow> bool list list" where
  "mat_and M N = map2 (map2 (\<and>)) M N"

text \<open>
  \<open>np.where\<close> of a boolean matrix: the row indices and the column indices of the true
  cells, in row-major order.
\<close>

definition true_cells :: "bool list list \<Rightarrow> (nat \<times> nat) list" where
  "true_cells M =
     concat (map (\<lambda>i. map (Pair i) (filter (\<lambda>j. M ! i ! j) [0..<length (M ! i)]))
       [0..<length M])"

definition np_where :: "bool list list \<Rightarrow> nat list \<times> nat list" where
  "np_where M = (map fst (true_cells M), map snd (true_cells M))"

text \<open>
  The first half of \<open>show_matches\<close>, from the two \<open>np.vstack\<close> calls to the list
  \<open>index_pairs\<close>.
\<close>

definition find_index_pairs ::
  "blas_kernel \<Rightarrow> gpx_row list \<Rightarrow> exp_row list \<Rightarrow> f64 \<Rightarrow> error + (nat \<times> nat) list" where
  "find_index_pairs kern gpx_df exp_df minimum_distance =
     (case vstack (map geometry gpx_df) of Inl e \<Rightarrow> Inl e | Inr A \<Rightarrow>
      case vstack (map geometry exp_df) of Inl e \<Rightarrow> Inl e | Inr B \<Rightarrow>
        let distances = EDM kern A B;
            arrivals = map arrival_epoch exp_df;
            departures = map departure_epoch exp_df;
            presence = map time_epoch gpx_df;
            pre_array = outer_sub arrivals presence;
            post_array = outer_sub departures presence;
            exposure_array = [distances, pre_array, post_array];
            results = np_where (mat_and
              (mat_and (mat_lt (exposure_array ! 0) minimum_distance)
                       (mat_lt (exposure_array ! 1) (Num 0)))
              (mat_gt (exposure_array ! 2) (Num 0)))
        in Inr (map (\<lambda>n. (fst results ! n, snd results ! n)) [0..<length (fst results)]))"

text \<open>\<open>df.iloc[i]\<close> raises \<open>IndexError\<close> out of range.\<close>

definition iloc :: "'a list \<Rightarrow> nat \<Rightarrow> error + 'a" where
  "iloc df i = (if i < length df then Inr (df ! i) else Inl IndexError)"

text \<open>
  The \<open>while len(index_pairs) > 0\<close> loop. An exception leaves the loop with the state
  as it is.
\<close>

function report_loop :: "f64 \<Rightarrow> (nat \<times> nat) list \<Rightarrow> world \<Rightarrow> error option \<times> world" where
  "report_loop minimum_distance [] w = (None, w)"
| "report_loop minimum_distance ((gpx_id, exp_id) # rest) w =
     (let index_pairs = filter (\<lambda>pair. exp_id \<noteq> snd pair) ((gpx_id, exp_id) # rest)
      in case iloc (gpx_gdf w) gpx_id of Inl e \<Rightarrow> (Some e, w) | Inr my_point \<Rightarrow>
         case iloc (exp_gdf w) exp_id of Inl e \<Rightarrow> (Some e, w) | Inr exposure_location \<Rightarrow>
           report_loop minimum_distance index_pairs
             (print (Match minimum_distance my_point exposure_location) w))"
  by pat_completeness auto
termination
  by (relation "measure (\<lambda>(m, index_pairs, w). length index_pairs)")
     (auto simp: less_Suc_eq_le)

text \<open>
  The same loop with nothing assumed about its termination: the value is \<open>None\<close> if
  the loop runs forever.
\<close>

partial_function (option) report_while ::
  "f64 \<Rightarrow> (nat \<times> nat) list \<Rightarrow> world \<Rightarrow> (error option \<times> world) option" where
  "report_while minimum_distance index_pairs w =
     (if length index_pairs > 0 then
        (case hd index_pairs of (gpx_id, exp_id) \<Rightarrow>
          (case iloc (gpx_gdf w) gpx_id of Inl e \<Rightarrow> Some (Some e, w) | Inr my_point \<Rightarrow>
           case iloc (exp_gdf w) exp_id of Inl e \<Rightarrow> Some (Some e, w) | Inr exposure_location \<Rightarrow>
             report_while minimum_distance (filter (\<lambda>pair. exp_id \<noteq> snd pair) index_pairs)
               (print (Match minimum_distance my_point exposure_location) w)))
      else Some (None, w))"

definition show_matches :: "world \<Rightarrow> f64 \<Rightarrow> error option \<times> world" where
  "show_matches w minimum_distance =
     (case find_index_pairs (blas w) (gpx_gdf w) (exp_gdf w) minimum_distance of
        Inl e \<Rightarrow> (Some e, w)
      | Inr index_pairs \<Rightarrow>
          if length index_pairs > 0
          then report_loop minimum_distance index_pairs (print ExposuresFound w)
          else (None, print AllGood w))"

subsection \<open>Definitions used to state and prove the properties\<close>

text \<open>
  The boolean matrix that \<open>show_matches\<close> hands to \<open>np.where\<close>, as a function of the two
  frames and the threshold.
\<close>

definition query :: "blas_kernel \<Rightarrow> gpx_row list \<Rightarrow> exp_row list \<Rightarrow> f64 \<Rightarrow> bool list list" where
  "query kern gpx_df exp_df minimum_distance =
     mat_and
       (mat_and (mat_lt (EDM kern (map geometry gpx_df) (map geometry exp_df)) minimum_distance)
          (mat_lt (outer_sub (map arrival_epoch exp_df) (map time_epoch gpx_df)) (Num 0)))
       (mat_gt (outer_sub (map departure_epoch exp_df) (map time_epoch gpx_df)) (Num 0))"

text \<open>
  The pairs for which the loop prints a match, in the order it prints them: the head of
  the list, then the same again on the list without the head's site.
\<close>

fun first_per_site :: "(nat \<times> nat) list \<Rightarrow> (nat \<times> nat) list" where
  "first_per_site [] = []"
| "first_per_site ((gpx_id, exp_id) # rest) =
     (gpx_id, exp_id) # first_per_site (filter (\<lambda>pair. exp_id \<noteq> snd pair) rest)"

text \<open>
  The distance the specification compares \<open>EDM\<close> with: the Euclidean distance of two
  points, computed pair by pair over the real numbers, and the tolerance of one
  hundredth that it allows.
\<close>

definition naive_distance :: "real \<times> real \<Rightarrow> real \<times> real \<Rightarrow> real" where
  "naive_distance a b = sqrt ((fst a - fst b)\<^sup>2 + (snd a - snd b)\<^sup>2)"

fun within_tolerance :: "f64 \<Rightarrow> real \<Rightarrow> bool" where
  "within_tolerance (Num d) r = (\<bar>d - r\<bar> \<le> 1 / 100)"
| "within_tolerance NaN r = False"

text \<open>
  Example data. \<open>track_A\<close> and \<open>site_A\<close> are scenario A of the specification (50 m
  apart, the track point inside the window); \<open>track_D\<close> is a second track point in
  range and in the window (scenario D); \<open>site_late\<close> has its arrival after its departure
  and \<open>site_instant\<close> a window of length zero.
\<close>

definition track_A :: gpx_row where
  "track_A = \<lparr>geometry = (Num 0, Num 0), time = ''10:00'', latitude = Num 0, longitude = Num 0,
     time_epoch = Num 1000\<rparr>"

definition track_D :: gpx_row where
  "track_D = \<lparr>geometry = (Num 10, Num 0), time = ''10:01'', latitude = Num 0, longitude = Num 0,
     time_epoch = Num 1050\<rparr>"

definition site_A :: exp_row where
  "site_A = \<lparr>geometry = (Num 50, Num 0), USER_SiteName = ''Cafe'', USER_Contact = ''Casual'',
     USER_Date = ''01/09/2021'', arrival_dt = ''09:00'', departure_dt = ''11:00'',
     X = Num 0, Y = Num 0, arrival_epoch = Num 900, departure_epoch = Num 1100\<rparr>"

definition site_late :: exp_row where
  "site_late = site_A\<lparr>arrival_epoch := Num 1100, departure_epoch := Num 900\<rparr>"

definition site_instant :: exp_row where
  "site_instant = site_A\<lparr>arrival_epoch := Num 1000, departure_epoch := Num 1000\<rparr>"

definition world_D :: world where
  "world_D = \<lparr>gpx_gdf = [track_A, track_D], exp_gdf = [site_A, site_late], stdout = [],
     blas = Fused\<rparr>"

section \<open>Facts about the float64 operations\<close>

lemma rint_close: "\<bar>real_of_int (rint x) - x\<bar> \<le> 1/2"
  unfolding rint_def Let_def by (auto split: if_splits)

lemma rint_of_int [simp]: "rint (of_int n) = n"
  by (simp add: rint_def)

lemma rint_ge_1: "1 \<le> x \<Longrightarrow> 1 \<le> rint x"
  using rint_close [of x] by linarith

lemma rint_le_m1: "x \<le> - 1 \<Longrightarrow> rint x \<le> - 1"
  using rint_close [of x] by linarith

text \<open>The exponent that \<open>expo\<close> computes is not above the number.\<close>

lemma expo_lower:
  assumes "x \<noteq> 0"
  shows "2 powi (expo x) \<le> \<bar>x\<bar>"
proof (cases "1 \<le> \<bar>x\<bar>")
  case True
  define n where "n = \<lfloor>\<bar>x\<bar>\<rfloor>"
  have n: "0 < n" using True by (simp add: n_def)
  have b: "1 \<le> bitlen n" using n by (simp add: bitlen_alt_def)
  have "(2::int) ^ nat (bitlen n - 1) \<le> n" using bitlen_bounds [OF n] by simp
  then have "real_of_int (2 ^ nat (bitlen n - 1)) \<le> real_of_int n" by linarith
  also have "\<dots> \<le> \<bar>x\<bar>" by (simp add: n_def)
  finally have "(2::real) ^ nat (bitlen n - 1) \<le> \<bar>x\<bar>" by simp
  moreover have "expo x = bitlen n - 1" using True by (simp add: expo_def n_def)
  ultimately show ?thesis using b by (simp add: power_int_def)
next
  case False
  define c where "c = \<lceil>1 / \<bar>x\<bar>\<rceil> - 1"
  have x: "0 < \<bar>x\<bar>" "\<bar>x\<bar> < 1" using assms False by auto
  then have "1 < 1 / \<bar>x\<bar>" by simp
  then have "1 < \<lceil>1 / \<bar>x\<bar>\<rceil>" by linarith
  then have c: "0 < c" by (simp add: c_def)
  have b: "0 \<le> bitlen c" by (rule bitlen_nonneg)
  have "c < 2 ^ nat (bitlen c)" using bitlen_bounds [OF c] by simp
  then have "\<lceil>1 / \<bar>x\<bar>\<rceil> \<le> 2 ^ nat (bitlen c)" by (simp add: c_def)
  then have "1 / \<bar>x\<bar> \<le> real_of_int (2 ^ nat (bitlen c))" by (simp only: ceiling_le_iff)
  then have "1 / \<bar>x\<bar> \<le> 2 ^ nat (bitlen c)" by simp
  then have "1 \<le> 2 ^ nat (bitlen c) * \<bar>x\<bar>" using x by (simp add: field_simps)
  then have "(1 / 2) ^ nat (bitlen c) \<le> \<bar>x\<bar>" by (simp add: power_one_over field_simps)
  moreover have "expo x = - bitlen c" using False by (simp add: expo_def c_def)
  ultimately show ?thesis using b by (auto simp add: power_int_def)
qed

lemma fl_zero [simp]: "fl 0 = 0"
  by (simp add: fl_def)

lemma fl_scaled_ge_1:
  assumes "x \<noteq> 0"
  shows "1 \<le> \<bar>x\<bar> / 2 powi (expo x - 52)"
proof -
  have p: "(0::real) < 2 powi (expo x - 52)" by (simp add: zero_less_power_int)
  have "(2::real) powi (expo x - 52) \<le> 2 powi (expo x)"
    by (rule power_int_increasing) simp_all
  also have "\<dots> \<le> \<bar>x\<bar>" by (rule expo_lower [OF assms])
  finally show ?thesis using p by simp
qed

text \<open>Rounding keeps the sign: a non-zero number does not round to zero.\<close>

lemma fl_pos: "0 < x \<Longrightarrow> 0 < fl x"
proof -
  assume x: "0 < x"
  have p: "(0::real) < 2 powi (expo x - 52)" by (simp add: zero_less_power_int)
  have "1 \<le> x / 2 powi (expo x - 52)" using fl_scaled_ge_1 [of x] x by simp
  then have "1 \<le> rint (x / 2 powi (expo x - 52))" by (rule rint_ge_1)
  then have "0 < real_of_int (rint (x / 2 powi (expo x - 52)))" by simp
  then show ?thesis using x p by (simp add: fl_def)
qed

lemma fl_neg: "x < 0 \<Longrightarrow> fl x < 0"
proof -
  assume x: "x < 0"
  have p: "(0::real) < 2 powi (expo x - 52)" by (simp add: zero_less_power_int)
  have "1 \<le> - x / 2 powi (expo x - 52)" using fl_scaled_ge_1 [of x] x by simp
  then have "x / 2 powi (expo x - 52) \<le> - 1" by simp
  then have "rint (x / 2 powi (expo x - 52)) \<le> - 1" by (rule rint_le_m1)
  then have "real_of_int (rint (x / 2 powi (expo x - 52))) < 0" by simp
  then show ?thesis using x p by (simp add: fl_def mult_less_0_iff)
qed

lemma fl_less_zero_iff [simp]: "fl x < 0 \<longleftrightarrow> x < 0"
proof (cases "x < 0")
  case True
  then show ?thesis by (simp add: fl_neg)
next
  case False
  then have "x = 0 \<or> 0 < x" by linarith
  then have "0 \<le> fl x" by (auto intro: less_imp_le [OF fl_pos])
  then show ?thesis using False by simp
qed

lemma zero_less_fl_iff [simp]: "0 < fl x \<longleftrightarrow> 0 < x"
proof (cases "0 < x")
  case True
  then show ?thesis by (simp add: fl_pos)
next
  case False
  then have "x = 0 \<or> x < 0" by linarith
  then have "fl x \<le> 0" by (auto intro: less_imp_le [OF fl_neg])
  then show ?thesis using False by simp
qed

text \<open>
  \<open>expo\<close> is the binary exponent: together with \<open>expo_lower\<close>,
  \<open>2 ^ expo x \<le> \<bar>x\<bar> < 2 ^ (expo x + 1)\<close>.
\<close>

lemma expo_upper:
  assumes "x \<noteq> 0"
  shows "\<bar>x\<bar> < 2 powi (expo x + 1)"
proof (cases "1 \<le> \<bar>x\<bar>")
  case True
  define n where "n = \<lfloor>\<bar>x\<bar>\<rfloor>"
  have n: "0 < n" using True by (simp add: n_def)
  have b: "1 \<le> bitlen n" using n by (simp add: bitlen_alt_def)
  have "n < 2 ^ nat (bitlen n)" using bitlen_bounds [OF n] by simp
  then have "\<bar>x\<bar> < real_of_int (2 ^ nat (bitlen n))" unfolding n_def by (simp only: floor_less_iff)
  then have "\<bar>x\<bar> < 2 ^ nat (bitlen n)" by simp
  moreover have "expo x + 1 = bitlen n" using True by (simp add: expo_def n_def)
  ultimately show ?thesis using b by (simp add: power_int_def)
next
  case False
  define c where "c = \<lceil>1 / \<bar>x\<bar>\<rceil> - 1"
  have x: "0 < \<bar>x\<bar>" "\<bar>x\<bar> < 1" using assms False by auto
  then have "1 < 1 / \<bar>x\<bar>" by simp
  then have "1 < \<lceil>1 / \<bar>x\<bar>\<rceil>" by linarith
  then have c: "0 < c" by (simp add: c_def)
  have b: "1 \<le> bitlen c" using c by (simp add: bitlen_alt_def)
  have "2 ^ nat (bitlen c - 1) \<le> c" using bitlen_bounds [OF c] by simp
  then have "real_of_int (2 ^ nat (bitlen c - 1)) \<le> real_of_int c" by linarith
  also have "real_of_int c < 1 / \<bar>x\<bar>" unfolding c_def by linarith
  finally have "2 ^ nat (bitlen c - 1) < 1 / \<bar>x\<bar>" by simp
  then have "2 ^ nat (bitlen c - 1) * \<bar>x\<bar> < 1" using x by (simp add: field_simps)
  then have "\<bar>x\<bar> < (1 / 2) ^ nat (bitlen c - 1)" by (simp add: power_one_over field_simps)
  moreover have "expo x + 1 = - (bitlen c - 1)" using False by (simp add: expo_def c_def)
  ultimately show ?thesis using b
    by (cases "bitlen c = 1") (auto simp add: power_int_def)
qed

text \<open>
  \<open>fl\<close> is a rounding to 53 significant bits: the result is within half a unit in the
  last place of the argument, and a number with a significand below \<open>2 ^ 53\<close> is kept as
  it is.
\<close>

lemma fl_error: "\<bar>fl x - x\<bar> \<le> 2 powi (expo x - 53)"
proof (cases "x = 0")
  case True
  then show ?thesis by simp
next
  case False
  define u :: real where "u = 2 powi (expo x - 52)"
  have u: "0 < u" by (simp add: u_def zero_less_power_int)
  have "\<bar>real_of_int (rint (x / u)) - x / u\<bar> * u \<le> 1 / 2 * u"
    using rint_close [of "x / u"] u by (intro mult_right_mono) simp_all
  moreover have "\<bar>real_of_int (rint (x / u)) - x / u\<bar> * u = \<bar>real_of_int (rint (x / u)) * u - x\<bar>"
  proof -
    have "\<bar>real_of_int (rint (x / u)) - x / u\<bar> * u = \<bar>(real_of_int (rint (x / u)) - x / u) * u\<bar>"
      using u by (simp add: abs_mult)
    also have "(real_of_int (rint (x / u)) - x / u) * u = real_of_int (rint (x / u)) * u - x"
      using u by (simp add: left_diff_distrib)
    finally show ?thesis .
  qed
  moreover have "fl x = real_of_int (rint (x / u)) * u" using False by (simp add: fl_def u_def)
  moreover have "1 / 2 * u = 2 powi (expo x - 53)"
    unfolding u_def using power_int_diff [of "2::real" "expo x - 52" 1] by simp
  ultimately show ?thesis by simp
qed

lemma fl_representable:
  assumes "\<bar>m\<bar> < 2 ^ 53"
  shows "fl (of_int m * 2 powi e) = of_int m * 2 powi e"
proof (cases "m = 0")
  case True
  then show ?thesis by simp
next
  case False
  define x :: real where "x = of_int m * 2 powi e"
  have x0: "x \<noteq> 0" using False by (simp add: x_def)
  have "\<bar>x\<bar> = of_int \<bar>m\<bar> * 2 powi e" by (simp add: x_def abs_mult)
  also have "\<dots> < 2 ^ 53 * 2 powi e"
  proof -
    have "real_of_int \<bar>m\<bar> < real_of_int (2 ^ 53)" using assms by linarith
    then show ?thesis by (simp add: zero_less_power_int)
  qed
  also have "\<dots> = 2 powi (53 + e)" by (simp add: power_int_add)
  finally have lt: "2 powi (expo x) < (2::real) powi (53 + e)"
    using expo_lower [OF x0] by linarith
  have "expo x < 53 + e"
  proof (rule ccontr)
    assume "\<not> expo x < 53 + e"
    then have "53 + e \<le> expo x" by simp
    then have "(2::real) powi (53 + e) \<le> 2 powi (expo x)"
      by (rule power_int_increasing) simp
    with lt show False by simp
  qed
  define a where "a = expo x - 52"
  define k where "k = nat (e - a)"
  have "0 \<le> e - a" using \<open>expo x < 53 + e\<close> by (simp add: a_def)
  then have e: "e = a + int k" by (simp add: k_def)
  have p: "(2::real) powi e = 2 powi a * 2 ^ k"
    unfolding e by (simp add: power_int_add)
  have a0: "(2::real) powi a \<noteq> 0" by simp
  have "x / 2 powi a = of_int (m * 2 ^ k)"
    using a0 by (simp add: x_def p)
  then have "rint (x / 2 powi a) = m * 2 ^ k" by (simp only: rint_of_int)
  then have "fl x = of_int (m * 2 ^ k) * 2 powi a"
    using x0 by (simp add: fl_def a_def)
  also have "\<dots> = x" by (simp add: x_def p)
  finally show ?thesis by (simp add: x_def)
qed

text \<open>
  Hence the sign tests of the query compare the two times themselves:
  \<open>arrival - time < 0\<close> is \<open>arrival < time\<close> and \<open>departure - time > 0\<close> is
  \<open>time < departure\<close>, also when one of them is NaN (both sides are then false).
\<close>

lemma flt_fsub_zero [simp]: "flt (fsub a t) (Num 0) \<longleftrightarrow> flt a t"
  by (cases a; cases t) simp_all

lemma fgt_fsub_zero [simp]: "fgt (fsub d t) (Num 0) \<longleftrightarrow> flt t d"
  by (cases d; cases t) simp_all

lemma flt_irrefl [simp]: "\<not> flt a a"
  by (cases a) simp_all

lemma flt_trans: "flt a b \<Longrightarrow> flt b c \<Longrightarrow> flt a c"
  by (cases a; cases b; cases c) simp_all

lemma flt_asym: "flt a b \<Longrightarrow> \<not> flt b a"
  by (cases a; cases b) simp_all

section \<open>Facts about the matrices and the candidate list\<close>

lemma length_EDM: "length (EDM kern A B) = length A"
  by (simp add: EDM_def)

lemma length_EDM_row: "i < length A \<Longrightarrow> length (EDM kern A B ! i) = length B"
  by (simp add: EDM_def)

lemma set_true_cells:
  "set (true_cells M) = {(i, j). i < length M \<and> j < length (M ! i) \<and> M ! i ! j}"
  by (auto simp: true_cells_def)

lemma pairs_of_np_where:
  "map (\<lambda>n. (fst (np_where M) ! n, snd (np_where M) ! n)) [0..<length (fst (np_where M))]
     = true_cells M"
  by (rule nth_equalityI) (simp_all add: np_where_def)

lemma sorted_rows: "sorted (map fst (concat (map (\<lambda>i. map (Pair i) (f i)) [0..<n])))"
  by (induction n) (auto simp: sorted_append comp_def map_replicate_const)

lemma sorted_true_cells: "sorted (map fst (true_cells M))"
  unfolding true_cells_def by (rule sorted_rows)

lemma find_index_pairs_eq:
  "find_index_pairs kern gpx_df exp_df md =
     (if gpx_df = [] \<or> exp_df = [] then Inl ValueError
      else Inr (true_cells (query kern gpx_df exp_df md)))"
  by (simp add: find_index_pairs_def vstack_def Let_def pairs_of_np_where query_def)

lemma length_query: "length (query kern gpx_df exp_df md) = length gpx_df"
  by (simp add: query_def mat_and_def mat_lt_def mat_gt_def outer_sub_def length_EDM)

lemma length_query_row:
  "i < length gpx_df \<Longrightarrow> length (query kern gpx_df exp_df md ! i) = length exp_df"
  by (simp add: query_def mat_and_def mat_lt_def mat_gt_def outer_sub_def length_EDM
      length_EDM_row)

lemma query_cell:
  assumes "i < length gpx_df" "j < length exp_df"
  shows "query kern gpx_df exp_df md ! i ! j \<longleftrightarrow>
     flt (EDM kern (map geometry gpx_df) (map geometry exp_df) ! i ! j) md
     \<and> flt (arrival_epoch (exp_df ! j)) (time_epoch (gpx_df ! i))
     \<and> flt (time_epoch (gpx_df ! i)) (departure_epoch (exp_df ! j))"
  using assms
  by (simp add: query_def mat_and_def mat_lt_def mat_gt_def outer_sub_def length_EDM
      length_EDM_row)

lemma set_index_pairs:
  assumes "find_index_pairs kern gpx_df exp_df md = Inr index_pairs"
  shows "(i, j) \<in> set index_pairs \<longleftrightarrow>
     i < length gpx_df \<and> j < length exp_df
     \<and> flt (EDM kern (map geometry gpx_df) (map geometry exp_df) ! i ! j) md
     \<and> flt (arrival_epoch (exp_df ! j)) (time_epoch (gpx_df ! i))
     \<and> flt (time_epoch (gpx_df ! i)) (departure_epoch (exp_df ! j))"
proof -
  have ps: "index_pairs = true_cells (query kern gpx_df exp_df md)"
    using assms by (simp add: find_index_pairs_eq split: if_splits)
  show ?thesis
    unfolding ps set_true_cells
    using query_cell [of i gpx_df j exp_df kern md] length_query_row [of i gpx_df kern exp_df md]
    by (auto simp: length_query)
qed

lemma set_first_per_site: "set (first_per_site ps) \<subseteq> set ps"
  by (induction ps rule: first_per_site.induct) auto

lemma snd_first_per_site: "snd ` set (first_per_site ps) = snd ` set ps"
proof (induction ps rule: first_per_site.induct)
  case 1
  show ?case by simp
next
  case (2 gpx_id exp_id rest)
  have "snd ` set ((gpx_id, exp_id) # rest)
      = insert exp_id (snd ` set (filter (\<lambda>pair. exp_id \<noteq> snd pair) rest))"
    by force
  then show ?case using 2 by simp
qed

lemma distinct_first_per_site: "distinct (map snd (first_per_site ps))"
proof (induction ps rule: first_per_site.induct)
  case 1
  show ?case by simp
next
  case (2 gpx_id exp_id rest)
  have "exp_id \<notin> snd ` set (filter (\<lambda>pair. exp_id \<noteq> snd pair) rest)" by auto
  then have "exp_id \<notin> snd ` set (first_per_site (filter (\<lambda>pair. exp_id \<noteq> snd pair) rest))"
    unfolding snd_first_per_site .
  then show ?case using 2 by simp
qed

lemma first_per_site_find:
  "(g, e) \<in> set (first_per_site ps) \<Longrightarrow> find (\<lambda>pair. snd pair = e) ps = Some (g, e)"
proof (induction ps rule: first_per_site.induct)
  case 1
  then show ?case by simp
next
  case (2 gpx_id exp_id rest)
  show ?case
  proof (cases "e = exp_id")
    case True
    have "e \<notin> snd ` set (filter (\<lambda>pair. exp_id \<noteq> snd pair) rest)" using True by auto
    then have "e \<notin> snd ` set (first_per_site (filter (\<lambda>pair. exp_id \<noteq> snd pair) rest))"
      unfolding snd_first_per_site .
    then have "(g, e) \<notin> set (first_per_site (filter (\<lambda>pair. exp_id \<noteq> snd pair) rest))"
      by force
    then show ?thesis using 2(2) True by simp
  next
    case False
    then have "(g, e) \<in> set (first_per_site (filter (\<lambda>pair. exp_id \<noteq> snd pair) rest))"
      using 2(2) by simp
    then have "find (\<lambda>pair. snd pair = e) (filter (\<lambda>pair. exp_id \<noteq> snd pair) rest) = Some (g, e)"
      by (rule 2(1))
    moreover have "find (\<lambda>pair. snd pair = e) (filter (\<lambda>pair. exp_id \<noteq> snd pair) rest)
        = find (\<lambda>pair. snd pair = e) rest"
      using False by (induction rest) auto
    ultimately show ?thesis using False by simp
  qed
qed

lemma find_sorted_lowest:
  "sorted (map fst ps) \<Longrightarrow> find P ps = Some (g, e) \<Longrightarrow> (g', e') \<in> set ps \<Longrightarrow> P (g', e')
     \<Longrightarrow> g \<le> g'"
  by (induction ps) (auto split: if_splits)

lemma first_per_site_lowest:
  assumes "sorted (map fst ps)" "(g, e) \<in> set (first_per_site ps)" "(g', e) \<in> set ps"
  shows "g \<le> g'"
  using find_sorted_lowest [OF assms(1) first_per_site_find [OF assms(2)] assms(3)] by simp

lemma report_loop_eq:
  assumes "\<forall>pair \<in> set ps. fst pair < length (gpx_gdf w) \<and> snd pair < length (exp_gdf w)"
  shows "report_loop md ps w =
     (None, w\<lparr>stdout := stdout w @
        map (\<lambda>(g, e). Match md (gpx_gdf w ! g) (exp_gdf w ! e)) (first_per_site ps)\<rparr>)"
  using assms
proof (induction md ps w rule: report_loop.induct)
  case (1 md w)
  show ?case by simp
next
  case (2 md gpx_id exp_id rest w)
  let ?w = "print (Match md (gpx_gdf w ! gpx_id) (exp_gdf w ! exp_id)) w"
  have r: "gpx_id < length (gpx_gdf w)" "exp_id < length (exp_gdf w)" using 2(2) by auto
  have f: "filter (\<lambda>pair. exp_id \<noteq> snd pair) ((gpx_id, exp_id) # rest)
      = filter (\<lambda>pair. exp_id \<noteq> snd pair) rest" by simp
  have "report_loop md (filter (\<lambda>pair. exp_id \<noteq> snd pair) ((gpx_id, exp_id) # rest)) ?w =
     (None, ?w\<lparr>stdout := stdout ?w @
        map (\<lambda>(g, e). Match md (gpx_gdf ?w ! g) (exp_gdf ?w ! e))
          (first_per_site (filter (\<lambda>pair. exp_id \<noteq> snd pair) ((gpx_id, exp_id) # rest)))\<rparr>)"
    using 2(2) r by (intro 2(1)) (auto simp: iloc_def print_def)
  then show ?case using r by (simp add: iloc_def print_def)
qed

lemma report_while_eq: "report_while md ps w = Some (report_loop md ps w)"
proof (induction md ps w rule: report_loop.induct)
  case (1 md w)
  show ?case by (subst report_while.simps) simp
next
  case (2 md gpx_id exp_id rest w)
  show ?case
    by (subst report_while.simps) (auto simp: 2 split: sum.splits)
qed

lemma show_matches_eq:
  "show_matches w md =
     (if gpx_gdf w = [] \<or> exp_gdf w = [] then (Some ValueError, w)
      else if true_cells (query (blas w) (gpx_gdf w) (exp_gdf w) md) = []
        then (None, w\<lparr>stdout := stdout w @ [AllGood]\<rparr>)
        else (None, w\<lparr>stdout := stdout w @ ExposuresFound #
          map (\<lambda>(g, e). Match md (gpx_gdf w ! g) (exp_gdf w ! e))
            (first_per_site (true_cells (query (blas w) (gpx_gdf w) (exp_gdf w) md)))\<rparr>))"
proof -
  let ?ps = "true_cells (query (blas w) (gpx_gdf w) (exp_gdf w) md)"
  let ?w = "print ExposuresFound w"
  have "\<forall>pair \<in> set ?ps. fst pair < length (gpx_gdf ?w) \<and> snd pair < length (exp_gdf ?w)"
    using length_query_row [of _ "gpx_gdf w" "blas w" "exp_gdf w" md]
    by (auto simp: set_true_cells length_query print_def)
  then have "report_loop md ?ps ?w = (None, ?w\<lparr>stdout := stdout ?w @
        map (\<lambda>(g, e). Match md (gpx_gdf ?w ! g) (exp_gdf ?w ! e)) (first_per_site ?ps)\<rparr>)"
    by (rule report_loop_eq)
  then show ?thesis
    by (simp add: show_matches_def find_index_pairs_eq print_def)
qed

section \<open>Evaluation at concrete inputs\<close>

lemma rad_neg: "fadd (fadd (sum_squares (Num (97440001 / 16), Num 0)) (sum_squares (Num (194880003 / 32), Num 0)))
   (fmul (Num (- 2)) (dot kern (Num (97440001 / 16), Num 0) (Num (194880003 / 32), Num 0))) = Num (- 1 / 64)"
  by (cases kern; hypsubst; code_simp)

lemma edm_nan: "EDM kern [(Num (97440001 / 16), Num 0)] [(Num (194880003 / 32), Num 0)] = [[NaN]]"
  by (simp add: EDM_def rad_neg)

lemma repr: "fl (97440001 / 16) = 97440001 / 16 \<and> fl (194880003 / 32) = 194880003 / 32"
  by code_simp

lemma rad_c4: "fadd (fadd (sum_squares (Num (194880003 / 32), Num 0)) (sum_squares (Num (389760007 / 64), Num 0)))
   (fmul (Num (- 2)) (dot kern (Num (194880003 / 32), Num 0) (Num (389760007 / 64), Num 0))) = Num (1 / 64)"
  by (cases kern; hypsubst; code_simp)

lemma sqrt64: "sqrt (1 / 64) = 1 / 8"
  by (rule real_sqrt_unique) (simp_all add: power2_eq_square)

lemma rnd_c4: "np_round (Num (fl (1 / 8))) 2 = Num (1080863910568919 / 9007199254740992)"
  by code_simp

lemma edm_c4: "EDM kern [(Num (194880003 / 32), Num 0)] [(Num (389760007 / 64), Num 0)] = [[Num (1080863910568919 / 9007199254740992)]]"
  by (simp add: EDM_def rad_c4 sqrt64 rnd_c4 del: np_round.simps)

lemma sqrt_2500: "sqrt 2500 = 50"
  by (rule real_sqrt_unique) (simp_all add: power2_eq_square)

lemma sqrt_1600: "sqrt 1600 = 40"
  by (rule real_sqrt_unique) (simp_all add: power2_eq_square)

lemma rad_A: "fadd (fadd (sum_squares (Num 0, Num 0)) (sum_squares (Num 50, Num 0)))
   (fmul (Num (- 2)) (dot kern (Num 0, Num 0) (Num 50, Num 0))) = Num 2500"
  by (cases kern; hypsubst; code_simp)

lemma rad_D: "fadd (fadd (sum_squares (Num 10, Num 0)) (sum_squares (Num 50, Num 0)))
   (fmul (Num (- 2)) (dot kern (Num 10, Num 0) (Num 50, Num 0))) = Num 1600"
  by (cases kern; hypsubst; code_simp)

lemma round_50: "np_round (Num (fl 50)) 2 = Num 50"
  by code_simp

lemma round_40: "np_round (Num (fl 40)) 2 = Num 40"
  by code_simp

lemma EDM_A: "EDM kern [(Num 0, Num 0)] [(Num 50, Num 0)] = [[Num 50]]"
  by (simp add: EDM_def rad_A sqrt_2500 round_50 del: np_round.simps)

lemma EDM_D: "EDM kern [(Num 0, Num 0), (Num 10, Num 0)] [(Num 50, Num 0), (Num 50, Num 0)]
    = [[Num 50, Num 50], [Num 40, Num 40]]"
  by (simp add: EDM_def rad_A rad_D sqrt_2500 sqrt_1600 round_50 round_40 del: np_round.simps)

lemma upt2: "[0..<2] = [0, Suc 0]"
  by (simp add: upt_rec)

lemma pairs_A: "find_index_pairs kern [track_A] [site_A] (Num 100) = Inr [(0, 0)]"
  by (simp add: find_index_pairs_eq query_def true_cells_def track_A_def site_A_def EDM_A
      mat_and_def mat_lt_def mat_gt_def outer_sub_def)

lemma pairs_D: "find_index_pairs (blas world_D) (gpx_gdf world_D) (exp_gdf world_D) (Num 100) = Inr [(0, 0), (1, 0)]"
  by (simp add: find_index_pairs_eq query_def true_cells_def track_A_def track_D_def site_A_def
      site_late_def world_D_def EDM_D mat_and_def mat_lt_def mat_gt_def outer_sub_def upt2)

lemma first_per_site_D: "first_per_site [(0, 0), (Suc 0, 0)] = [(0, 0)]"
  by simp

lemma show_matches_D:
  "show_matches world_D (Num 100) =
     (None, world_D\<lparr>stdout := [ExposuresFound, Match (Num 100) track_A site_A]\<rparr>)"
  using pairs_D
  by (simp add: show_matches_eq find_index_pairs_eq world_D_def first_per_site_D
      split: if_splits)

lemma world_D_fields:
  "gpx_gdf world_D = [track_A, track_D]" "exp_gdf world_D = [site_A, site_late]"
  "stdout world_D = []"
  by (simp_all add: world_D_def)

lemma site_late_window: "flt (departure_epoch site_late) (arrival_epoch site_late)"
  by (simp add: site_late_def)

lemma pairs_instant:
  "find_index_pairs kern [track_A] [site_instant] (Num 100) = Inr []"
  by (simp add: find_index_pairs_eq query_def true_cells_def track_A_def site_A_def
      site_instant_def mat_and_def mat_lt_def mat_gt_def outer_sub_def length_EDM_row EDM_def)

section \<open>The properties\<close>

subsection \<open>Candidates\<close>

text \<open>
  Claim C1. Whatever the two frames and \<open>minimum_distance\<close> are, when \<open>show_matches\<close>
  reaches its list \<open>index_pairs\<close>, the pair \<open>(i, j)\<close> is in the list exactly when
  \<open>i\<close> is a row of the track, \<open>j\<close> a row of the sites, the distance \<open>D[i][j]\<close> that
  \<open>EDM\<close> returns is strictly below \<open>minimum_distance\<close>, and the time of the track point
  is strictly between the arrival and the departure of the site. A pair whose distance
  equals the threshold, or whose time equals the arrival or the departure, is not in the
  list.
\<close>

theorem match_candidate_iff:
  assumes "find_index_pairs kern gpx_df exp_df minimum_distance = Inr index_pairs"
  shows "((i, j) \<in> set index_pairs \<longleftrightarrow>
           i < length gpx_df \<and> j < length exp_df
           \<and> flt (EDM kern (map geometry gpx_df) (map geometry exp_df) ! i ! j) minimum_distance
           \<and> flt (arrival_epoch (exp_df ! j)) (time_epoch (gpx_df ! i))
           \<and> flt (time_epoch (gpx_df ! i)) (departure_epoch (exp_df ! j)))
       \<and> (EDM kern (map geometry gpx_df) (map geometry exp_df) ! i ! j = minimum_distance
            \<longrightarrow> (i, j) \<notin> set index_pairs)
       \<and> (time_epoch (gpx_df ! i) = arrival_epoch (exp_df ! j) \<longrightarrow> (i, j) \<notin> set index_pairs)
       \<and> (time_epoch (gpx_df ! i) = departure_epoch (exp_df ! j) \<longrightarrow> (i, j) \<notin> set index_pairs)"
  using set_index_pairs [OF assms, of i j] by auto

text \<open>
  Scenario A of the specification: one track point at the origin at time 1000, one site
  50 m away with the window from 900 to 1100, threshold 100.
\<close>

theorem match_candidate_iff_witness:
  "find_index_pairs Rounded [track_A] [site_A] (Num 100) = Inr [(0, 0)]
   \<and> (0, 0) \<in> set [(0::nat, 0::nat)]
   \<and> flt (EDM Rounded (map geometry [track_A]) (map geometry [site_A]) ! 0 ! 0) (Num 100)
   \<and> flt (arrival_epoch ([site_A] ! 0)) (time_epoch ([track_A] ! 0))
   \<and> flt (time_epoch ([track_A] ! 0)) (departure_epoch ([site_A] ! 0))"
  using match_candidate_iff [OF pairs_A [of Rounded], of 0 0] pairs_A [of Rounded] by simp

text \<open>
  Claim C6. A site whose arrival is after its departure stays in \<open>exp_gdf\<close> and has
  its cell in every row of the distance matrix, but no pair with its index is a
  candidate, and no printed match shows it.
\<close>

theorem invalid_window_never_reported:
  assumes "j < length (exp_gdf w)"
    and "flt (departure_epoch (exp_gdf w ! j)) (arrival_epoch (exp_gdf w ! j))"
  shows "exp_gdf (snd (show_matches w minimum_distance)) = exp_gdf w
     \<and> (\<forall>i < length (gpx_gdf w).
           j < length (EDM (blas w) (map geometry (gpx_gdf w)) (map geometry (exp_gdf w)) ! i))
     \<and> (\<forall>index_pairs i.
           find_index_pairs (blas w) (gpx_gdf w) (exp_gdf w) minimum_distance = Inr index_pairs
             \<longrightarrow> (i, j) \<notin> set index_pairs)
     \<and> (\<forall>my_point. Match minimum_distance my_point (exp_gdf w ! j)
           \<notin> set (printed w (snd (show_matches w minimum_distance))))"
proof -
  let ?ps = "true_cells (query (blas w) (gpx_gdf w) (exp_gdf w) minimum_distance)"
  have bad: "\<not> (flt (arrival_epoch (exp_gdf w ! j)) t \<and> flt t (departure_epoch (exp_gdf w ! j)))"
    for t
    using assms(2) flt_trans flt_asym by blast
  have 1: "exp_gdf (snd (show_matches w minimum_distance)) = exp_gdf w"
    by (simp add: show_matches_eq)
  have 2: "\<forall>i < length (gpx_gdf w).
           j < length (EDM (blas w) (map geometry (gpx_gdf w)) (map geometry (exp_gdf w)) ! i)"
    using assms(1) by (simp add: length_EDM_row)
  have 3: "\<forall>index_pairs i.
           find_index_pairs (blas w) (gpx_gdf w) (exp_gdf w) minimum_distance = Inr index_pairs
             \<longrightarrow> (i, j) \<notin> set index_pairs"
    using bad by (auto simp: set_index_pairs)
  have sites: "flt (arrival_epoch (exp_gdf w ! e)) (departure_epoch (exp_gdf w ! e))"
    if "(g, e) \<in> set (first_per_site ?ps)" for g e
  proof -
    have "(g, e) \<in> set ?ps" using that set_first_per_site by blast
    then have "flt (arrival_epoch (exp_gdf w ! e)) (time_epoch (gpx_gdf w ! g))
        \<and> flt (time_epoch (gpx_gdf w ! g)) (departure_epoch (exp_gdf w ! e))"
      using query_cell [of g "gpx_gdf w" e "exp_gdf w" "blas w" minimum_distance]
        length_query_row [of g "gpx_gdf w" "blas w" "exp_gdf w" minimum_distance]
      by (auto simp: set_true_cells length_query)
    then show ?thesis using flt_trans by blast
  qed
  have 4: "Match minimum_distance my_point (exp_gdf w ! j)
           \<notin> set (printed w (snd (show_matches w minimum_distance)))" for my_point
  proof
    assume "Match minimum_distance my_point (exp_gdf w ! j)
           \<in> set (printed w (snd (show_matches w minimum_distance)))"
    then obtain g e where "(g, e) \<in> set (first_per_site ?ps)" "exp_gdf w ! e = exp_gdf w ! j"
      by (auto simp: show_matches_eq printed_def split: if_splits)
    then have "flt (arrival_epoch (exp_gdf w ! j)) (departure_epoch (exp_gdf w ! j))"
      using sites by metis
    then show False using assms(2) flt_asym by blast
  qed
  show ?thesis using 1 2 3 4 by blast
qed

text \<open>
  The second site of \<open>world_D\<close> has its window reversed; it is at the same place as
  the first, which is reported.
\<close>

theorem invalid_window_never_reported_witness:
  "1 < length (exp_gdf world_D)
   \<and> flt (departure_epoch (exp_gdf world_D ! 1)) (arrival_epoch (exp_gdf world_D ! 1))
   \<and> exp_gdf (snd (show_matches world_D (Num 100))) = [site_A, site_late]
   \<and> (0, 1) \<notin> set [(0::nat, 0::nat), (1, 0)]
   \<and> Match (Num 100) track_A site_late \<notin> set (printed world_D (snd (show_matches world_D (Num 100))))"
proof -
  have a: "1 < length (exp_gdf world_D)" by (simp add: world_D_fields)
  have b: "flt (departure_epoch (exp_gdf world_D ! 1)) (arrival_epoch (exp_gdf world_D ! 1))"
    by (simp add: world_D_fields site_late_window)
  show ?thesis
    using invalid_window_never_reported [OF a b, of "Num 100"] a b
    by (simp add: world_D_fields)
qed

text \<open>
  Claim C9. A site whose arrival equals its departure is never part of a candidate:
  no time is strictly after and strictly before the same instant.
\<close>

theorem zero_length_window_never_matches:
  assumes "j < length exp_df"
    and "arrival_epoch (exp_df ! j) = departure_epoch (exp_df ! j)"
    and "find_index_pairs kern gpx_df exp_df minimum_distance = Inr index_pairs"
  shows "(i, j) \<notin> set index_pairs"
  using assms(2) flt_asym by (auto simp: set_index_pairs [OF assms(3)])

text \<open>
  A track point at the very instant of a window of length zero.
\<close>

theorem zero_length_window_never_matches_witness:
  "0 < length [site_instant]
   \<and> arrival_epoch ([site_instant] ! 0) = departure_epoch ([site_instant] ! 0)
   \<and> arrival_epoch ([site_instant] ! 0) = time_epoch track_A
   \<and> find_index_pairs Rounded [track_A] [site_instant] (Num 100) = Inr []
   \<and> (0, 0) \<notin> set ([] :: (nat \<times> nat) list)"
proof -
  have a: "0 < length [site_instant]" by simp
  have b: "arrival_epoch ([site_instant] ! 0) = departure_epoch ([site_instant] ! 0)"
    by (simp add: site_instant_def)
  have c: "arrival_epoch ([site_instant] ! 0) = time_epoch track_A"
    by (simp add: site_instant_def track_A_def)
  show ?thesis
    using zero_length_window_never_matches [OF a b pairs_instant [of Rounded], of 0] a b c
      pairs_instant [of Rounded]
    by simp
qed

subsection \<open>The distance matrix\<close>

text \<open>
  Claim C2 says that no cell of the matrix is negative or NaN, because a negative sum
  \<open>p1+p2+p3\<close> is replaced by 0 before the root. \<open>EDM\<close> has no such step. For the two
  float64 points \<open>(6090000.0625, 0)\<close> and \<open>(6090000.09375, 0)\<close>, 3 cm apart, the
  rounded sum is \<open>-1/64\<close> and the cell is NaN, with either kernel of \<open>np.dot\<close>.
\<close>

theorem EDM_nan_at_close_points:
  "fl (97440001 / 16) = 97440001 / 16 \<and> fl (194880003 / 32) = 194880003 / 32
   \<and> EDM Rounded [(Num (97440001 / 16), Num 0)] [(Num (194880003 / 32), Num 0)] = [[NaN]]
   \<and> EDM Fused [(Num (97440001 / 16), Num 0)] [(Num (194880003 / 32), Num 0)] = [[NaN]]"
  using repr edm_nan [of Rounded] edm_nan [of Fused] by simp

text \<open>
  Claim C4 says that every cell is within 0.01 of the distance computed pair by pair.
  For the two float64 points \<open>(6090000.09375, 0)\<close> and \<open>(6090000.109375, 0)\<close> the
  distance is \<open>1/64\<close> (1.6 cm); the rounded sum \<open>p1+p2+p3\<close> is \<open>1/64\<close>, its root
  \<open>1/8\<close>, and the cell is the float64 number nearest to 0.12, with either kernel of
  \<open>np.dot\<close>.
\<close>

theorem EDM_off_by_a_decimetre:
  "fl (194880003 / 32) = 194880003 / 32 \<and> fl (389760007 / 64) = 389760007 / 64
   \<and> EDM Rounded [(Num (194880003 / 32), Num 0)] [(Num (389760007 / 64), Num 0)]
       = [[Num (1080863910568919 / 9007199254740992)]]
   \<and> EDM Fused [(Num (194880003 / 32), Num 0)] [(Num (389760007 / 64), Num 0)]
       = [[Num (1080863910568919 / 9007199254740992)]]
   \<and> naive_distance (194880003 / 32, 0) (389760007 / 64, 0) = 1 / 64
   \<and> \<not> within_tolerance (Num (1080863910568919 / 9007199254740992))
         (naive_distance (194880003 / 32, 0) (389760007 / 64, 0))"
proof -
  have r: "fl (194880003 / 32) = 194880003 / 32 \<and> fl (389760007 / 64) = 389760007 / 64"
    by code_simp
  have n: "naive_distance (194880003 / 32, 0) (389760007 / 64, 0) = 1 / 64"
    by (simp add: naive_distance_def)
  show ?thesis using r edm_c4 [of Rounded] edm_c4 [of Fused] by (simp add: n)
qed

subsection \<open>Empty input\<close>

text \<open>
  Claim C5 says that an empty track against a non-empty list of sites gives an empty
  result and no error. \<open>show_matches\<close> stops at its first \<open>np.vstack\<close> with
  \<open>ValueError\<close> and prints nothing, whatever the kernel.
\<close>

theorem show_matches_empty_track:
  "show_matches \<lparr>gpx_gdf = [], exp_gdf = [site_A], stdout = [], blas = Rounded\<rparr> (Num 100)
     = (Some ValueError, \<lparr>gpx_gdf = [], exp_gdf = [site_A], stdout = [], blas = Rounded\<rparr>)
   \<and> show_matches \<lparr>gpx_gdf = [], exp_gdf = [site_A], stdout = [], blas = Fused\<rparr> (Num 100)
     = (Some ValueError, \<lparr>gpx_gdf = [], exp_gdf = [site_A], stdout = [], blas = Fused\<rparr>)"
  by (simp add: show_matches_eq)

subsection \<open>The report\<close>

text \<open>
  Claim C3. When \<open>show_matches\<close> reaches its list \<open>index_pairs\<close>, what it prints is
  \<open>All good\<close> if the list is empty, and otherwise the heading followed by one match for
  each pair of a selection \<open>sel\<close>: no two pairs of \<open>sel\<close> have the same site, the sites
  of \<open>sel\<close> are exactly the sites of the candidates (a site without a candidate has no
  match), and each pair of \<open>sel\<close> is the first candidate of its site in the list, which
  is the candidate of that site with the lowest track index.
\<close>

theorem one_entry_per_site:
  assumes "find_index_pairs (blas w) (gpx_gdf w) (exp_gdf w) minimum_distance = Inr index_pairs"
  shows "\<exists>sel.
      printed w (snd (show_matches w minimum_distance)) =
        (if index_pairs = [] then [AllGood]
         else ExposuresFound #
           map (\<lambda>(g, e). Match minimum_distance (gpx_gdf w ! g) (exp_gdf w ! e)) sel)
      \<and> distinct (map snd sel)
      \<and> snd ` set sel = snd ` set index_pairs
      \<and> (\<forall>(g, e) \<in> set sel.
            find (\<lambda>pair. snd pair = e) index_pairs = Some (g, e)
            \<and> (\<forall>g'. (g', e) \<in> set index_pairs \<longrightarrow> g \<le> g'))"
proof -
  have ps: "index_pairs = true_cells (query (blas w) (gpx_gdf w) (exp_gdf w) minimum_distance)"
    and ne: "gpx_gdf w \<noteq> []" "exp_gdf w \<noteq> []"
    using assms by (auto simp add: find_index_pairs_eq split: if_splits)
  have s: "sorted (map fst index_pairs)" unfolding ps by (rule sorted_true_cells)
  let ?sel = "first_per_site index_pairs"
  have "printed w (snd (show_matches w minimum_distance)) =
        (if index_pairs = [] then [AllGood]
         else ExposuresFound #
           map (\<lambda>(g, e). Match minimum_distance (gpx_gdf w ! g) (exp_gdf w ! e)) ?sel)"
    using ne by (simp add: show_matches_eq printed_def ps)
  moreover have "distinct (map snd ?sel)" by (rule distinct_first_per_site)
  moreover have "snd ` set ?sel = snd ` set index_pairs" by (rule snd_first_per_site)
  moreover have "\<forall>(g, e) \<in> set ?sel.
            find (\<lambda>pair. snd pair = e) index_pairs = Some (g, e)
            \<and> (\<forall>g'. (g', e) \<in> set index_pairs \<longrightarrow> g \<le> g')"
    using first_per_site_find [of _ _ index_pairs] first_per_site_lowest [OF s] by blast
  ultimately show ?thesis by blast
qed

text \<open>
  Scenario D of the specification: two track points in range and in the window of one
  site; the match printed is the one of the first track point.
\<close>

theorem one_entry_per_site_witness:
  "find_index_pairs (blas world_D) (gpx_gdf world_D) (exp_gdf world_D) (Num 100) = Inr [(0, 0), (1, 0)]
   \<and> printed world_D (snd (show_matches world_D (Num 100)))
        = [ExposuresFound, Match (Num 100) track_A site_A]
   \<and> (\<exists>sel. printed world_D (snd (show_matches world_D (Num 100))) =
          (if [(0::nat, 0::nat), (1, 0)] = [] then [AllGood]
           else ExposuresFound #
             map (\<lambda>(g, e). Match (Num 100) (gpx_gdf world_D ! g) (exp_gdf world_D ! e)) sel)
        \<and> distinct (map snd sel)
        \<and> snd ` set sel = snd ` set [(0::nat, 0::nat), (1, 0)]
        \<and> (\<forall>(g, e) \<in> set sel.
              find (\<lambda>pair. snd pair = e) [(0::nat, 0::nat), (1, 0)] = Some (g, e)
              \<and> (\<forall>g'. (g', e) \<in> set [(0::nat, 0::nat), (1, 0)] \<longrightarrow> g \<le> g')))"
proof -
  have "stdout world_D = []" by (simp add: world_D_def)
  then have p: "printed world_D (snd (show_matches world_D (Num 100)))
        = [ExposuresFound, Match (Num 100) track_A site_A]"
    by (simp add: show_matches_D printed_def)
  show ?thesis
    using one_entry_per_site [OF pairs_D] pairs_D p by (intro conjI) assumption+
qed

text \<open>
  Claim C8. A call leaves both frames as they were; it only appends to the output.
\<close>

theorem show_matches_frame:
  "gpx_gdf (snd (show_matches w minimum_distance)) = gpx_gdf w
   \<and> exp_gdf (snd (show_matches w minimum_distance)) = exp_gdf w
   \<and> stdout (snd (show_matches w minimum_distance))
       = stdout w @ printed w (snd (show_matches w minimum_distance))"
proof -
  have "\<exists>e out. show_matches w minimum_distance = (e, w\<lparr>stdout := stdout w @ out\<rparr>)"
  proof (cases "gpx_gdf w = [] \<or> exp_gdf w = []")
    case True
    then have "show_matches w minimum_distance = (Some ValueError, w\<lparr>stdout := stdout w @ []\<rparr>)"
      by (simp add: show_matches_eq)
    then show ?thesis by blast
  next
    case False
    show ?thesis
    proof (cases "true_cells (query (blas w) (gpx_gdf w) (exp_gdf w) minimum_distance) = []")
      case True
      with False have "show_matches w minimum_distance = (None, w\<lparr>stdout := stdout w @ [AllGood]\<rparr>)"
        by (simp add: show_matches_eq)
      then show ?thesis by blast
    next
      case cands: False
      with False have "show_matches w minimum_distance =
        (None, w\<lparr>stdout := stdout w @ ExposuresFound #
          map (\<lambda>(g, e). Match minimum_distance (gpx_gdf w ! g) (exp_gdf w ! e))
            (first_per_site (true_cells (query (blas w) (gpx_gdf w) (exp_gdf w) minimum_distance)))\<rparr>)"
        by (simp add: show_matches_eq)
      then show ?thesis by blast
    qed
  qed
  then obtain e out where r: "show_matches w minimum_distance = (e, w\<lparr>stdout := stdout w @ out\<rparr>)"
    by blast
  have "printed w (w\<lparr>stdout := stdout w @ out\<rparr>) = out" by (simp add: printed_def)
  then show ?thesis by (simp add: r)
qed

text \<open>
  The state after the call on \<open>world_D\<close>.
\<close>

theorem show_matches_frame_witness:
  "gpx_gdf (snd (show_matches world_D (Num 100))) = [track_A, track_D]
   \<and> exp_gdf (snd (show_matches world_D (Num 100))) = [site_A, site_late]
   \<and> stdout (snd (show_matches world_D (Num 100)))
       = [ExposuresFound, Match (Num 100) track_A site_A]"
proof -
  have p: "printed world_D (snd (show_matches world_D (Num 100)))
      = [ExposuresFound, Match (Num 100) track_A site_A]"
    by (simp add: show_matches_D printed_def world_D_fields)
  show ?thesis
    using show_matches_frame [of world_D "Num 100"] p by (simp add: world_D_fields)
qed

subsection \<open>Termination of the loop\<close>

text \<open>
  Claim C10. The \<open>while\<close> loop returns for every list of candidates, frames and
  output: each pass replaces the list by a strictly shorter one, in which no pair has
  the site of the former head.
\<close>

theorem report_loop_terminates:
  "(\<exists>r. report_while minimum_distance index_pairs w = Some r)
   \<and> (\<forall>gpx_id exp_id rest. index_pairs = (gpx_id, exp_id) # rest \<longrightarrow>
         length (filter (\<lambda>pair. exp_id \<noteq> snd pair) index_pairs) < length index_pairs
         \<and> exp_id \<notin> snd ` set (filter (\<lambda>pair. exp_id \<noteq> snd pair) index_pairs))"
proof (rule conjI)
  show "\<exists>r. report_while minimum_distance index_pairs w = Some r"
  proof (induction "length index_pairs" arbitrary: index_pairs w rule: less_induct)
    case less
    show ?case
    proof (cases index_pairs)
      case Nil
      then show ?thesis by (subst report_while.simps) simp
    next
      case (Cons p rest)
      obtain gpx_id exp_id where p: "p = (gpx_id, exp_id)" by (cases p)
      let ?ps = "filter (\<lambda>pair. exp_id \<noteq> snd pair) index_pairs"
      have "length ?ps < length index_pairs" using Cons p by (simp add: less_Suc_eq_le)
      then have "\<exists>r. report_while minimum_distance ?ps w' = Some r" for w'
        by (rule less)
      then show ?thesis
        using Cons p by (subst report_while.simps) (auto split: sum.splits)
    qed
  qed
next
  show "\<forall>gpx_id exp_id rest. index_pairs = (gpx_id, exp_id) # rest \<longrightarrow>
         length (filter (\<lambda>pair. exp_id \<noteq> snd pair) index_pairs) < length index_pairs
         \<and> exp_id \<notin> snd ` set (filter (\<lambda>pair. exp_id \<noteq> snd pair) index_pairs)"
    by (auto simp: less_Suc_eq_le)
qed

text \<open>
  The loop on the two candidates of scenario D.
\<close>

theorem report_loop_terminates_witness:
  "report_while (Num 100) [(0, 0), (1, 0)] world_D
     = Some (None, world_D\<lparr>stdout := [Match (Num 100) track_A site_A]\<rparr>)
   \<and> length (filter (\<lambda>pair. 0 \<noteq> snd pair) [(0::nat, 0::nat), (1, 0)])
       < length [(0::nat, 0::nat), (1, 0)]"
proof -
  have "report_while (Num 100) [(0, 0), (1, 0)] world_D
     = Some (None, world_D\<lparr>stdout := [Match (Num 100) track_A site_A]\<rparr>)"
    by (simp add: report_while_eq world_D_fields iloc_def print_def)
  then show ?thesis
    using report_loop_terminates [of "Num 100" "[(0, 0), (1, 0)]" world_D] by simp
qed

end
